theory Spec2Isabelle
  imports Main "HOL-Library.Word"
begin

section \<open>Resume AI frontend logic (static/app.js)\<close>

text \<open>
  The script drives one page: it reads the form into a request payload, validates it,
  posts it to \<^verbatim>\<open>/tailor\<close> or \<^verbatim>\<open>/script\<close>, animates a four-step loading
  indicator on an interval timer, and on completion either downloads the returned file,
  fills a modal with the returned script, or shows an error panel.

  The page is explicit state: every handler takes the page and returns the page it leaves
  behind. An \<^verbatim>\<open>async\<close> handler is cut at its suspension: the part that runs when
  the event fires, and the part that runs once the network has settled. All writes to the
  page in the second part happen in one synchronous stretch after the last
  \<^verbatim>\<open>await\<close>, so it is one function of the page as it is at that moment and of
  what the network delivered.
\<close>

subsection \<open>Strings\<close>

text \<open>A JavaScript string is a sequence of UTF-16 code units.\<close>

type_synonym jsstring = "16 word list"

definition js :: "string \<Rightarrow> jsstring" where
  "js s = map of_char s"

text \<open>
  \<^verbatim>\<open>String.prototype.trim\<close> removes the code units of WhiteSpace and LineTerminator
  (ECMAScript 12.2, 12.3) from both ends.
\<close>

definition is_white_space :: "16 word \<Rightarrow> bool" where
  "is_white_space c \<longleftrightarrow>
     c \<in> {0x9, 0xA, 0xB, 0xC, 0xD, 0x20, 0xA0, 0x1680, 0x2028, 0x2029, 0x202F, 0x205F,
          0x3000, 0xFEFF}
     \<or> (0x2000 \<le> c \<and> c \<le> 0x200A)"

definition trim :: "jsstring \<Rightarrow> jsstring" where
  "trim s = rev (dropWhile is_white_space (rev (dropWhile is_white_space s)))"

text \<open>\<^verbatim>\<open>x || d\<close> for \<open>x\<close> a string, \<^verbatim>\<open>undefined\<close> or \<^verbatim>\<open>null\<close> (here \<open>None\<close>).\<close>

definition or_str :: "jsstring option \<Rightarrow> jsstring \<Rightarrow> jsstring" where
  "or_str x d = (case x of None \<Rightarrow> d | Some s \<Rightarrow> if s = [] then d else s)"

subsection \<open>Numbers\<close>

text \<open>
  A Number is NaN, an integer of magnitude at most \<open>2^53\<close> (held exactly), or any other
  value, which is carried by the text \<^verbatim>\<open>ToString\<close> gives for it. Zero and minus zero
  are both \<open>NumInt 0\<close>: they print alike and both are falsy.
\<close>

datatype jsnum = NumNaN | NumInt int | NumText jsstring

function nat_digits :: "nat \<Rightarrow> jsstring" where
  "nat_digits n =
     (if n < 10 then [of_nat (48 + n)] else nat_digits (n div 10) @ [of_nat (48 + n mod 10)])"
  by pat_completeness auto
termination
  by (relation "measure id") auto

declare nat_digits.simps [simp del]

definition int_text :: "int \<Rightarrow> jsstring" where
  "int_text i = (if i < 0 then 0x2D # nat_digits (nat (- i)) else nat_digits (nat i))"

fun num_text :: "jsnum \<Rightarrow> jsstring" where
  "num_text NumNaN = js ''NaN''"
| "num_text (NumInt i) = int_text i"
| "num_text (NumText t) = t"

text \<open>
  What the engine leaves open: the message texts of the errors it raises itself, and the
  text of a Number that \<^verbatim>\<open>parseInt\<close> rounds from an integer beyond \<open>2^53\<close>.
\<close>

record engine =
  msg_nullish :: jsstring
  msg_primitive :: jsstring
  msg_uri :: jsstring
  big_int_text :: "int \<Rightarrow> jsstring"

datatype error =
    TypeError_nullish
  | TypeError_primitive
  | URIError
  | Error jsstring
  | Rejection jsstring

text \<open>\<^verbatim>\<open>err.message\<close>. A rejected promise carries the message of its reason.\<close>

fun message :: "engine \<Rightarrow> error \<Rightarrow> jsstring" where
  "message eng TypeError_nullish = msg_nullish eng"
| "message eng TypeError_primitive = msg_primitive eng"
| "message eng URIError = msg_uri eng"
| "message eng (Error m) = m"
| "message eng (Rejection m) = m"

text \<open>
  \<^verbatim>\<open>parseInt(str, 10)\<close>: leading white space is skipped, one sign is read, then the
  longest run of decimal digits; no digit gives NaN.
\<close>

definition is_digit :: "16 word \<Rightarrow> bool" where
  "is_digit c \<longleftrightarrow> 0x30 \<le> c \<and> c \<le> 0x39"

definition digits_value :: "jsstring \<Rightarrow> nat" where
  "digits_value z = foldl (\<lambda>a c. 10 * a + (unat c - 48)) 0 z"

definition parseInt10 :: "engine \<Rightarrow> jsstring \<Rightarrow> jsnum" where
  "parseInt10 eng str =
     (let s = dropWhile is_white_space str;
          neg = (case s of [] \<Rightarrow> False | c # _ \<Rightarrow> c = 0x2D);
          s1 = (case s of [] \<Rightarrow> s | c # r \<Rightarrow> if c = 0x2B \<or> c = 0x2D then r else s);
          z = takeWhile is_digit s1
      in if z = [] then NumNaN
         else let m = digits_value z; v = (if neg then - int m else int m)
              in if m \<le> 2 ^ 53 then NumInt v else NumText (big_int_text eng v))"

subsection \<open>decodeURIComponent\<close>

text \<open>
  ECMAScript's Decode with an empty set of preserved escapes: \<^verbatim>\<open>%XX\<close> is one octet,
  an octet below \<open>0x80\<close> is its own code unit, a lead octet announces one to three
  continuation escapes, and the octets must be the UTF-8 encoding of a code point
  (shortest form, no surrogate, at most \<open>0x10FFFF\<close>). Anything else throws URIError.
\<close>

definition hex_val :: "16 word \<Rightarrow> nat option" where
  "hex_val c =
     (if 0x30 \<le> c \<and> c \<le> 0x39 then Some (unat c - 0x30)
      else if 0x41 \<le> c \<and> c \<le> 0x46 then Some (unat c - 0x41 + 10)
      else if 0x61 \<le> c \<and> c \<le> 0x66 then Some (unat c - 0x61 + 10)
      else None)"

fun hex_octet :: "jsstring \<Rightarrow> nat option" where
  "hex_octet [a, b] =
     (case hex_val a of None \<Rightarrow> None
      | Some x \<Rightarrow> (case hex_val b of None \<Rightarrow> None | Some y \<Rightarrow> Some (16 * x + y)))"
| "hex_octet _ = None"

fun escapes :: "nat \<Rightarrow> jsstring \<Rightarrow> nat list option" where
  "escapes 0 s = (if s = [] then Some [] else None)"
| "escapes (Suc n) (p # a # b # r) =
     (if p = 0x25
      then (case hex_octet [a, b] of None \<Rightarrow> None
            | Some o1 \<Rightarrow> (case escapes n r of None \<Rightarrow> None | Some os \<Rightarrow> Some (o1 # os)))
      else None)"
| "escapes (Suc n) _ = None"

definition is_cont :: "nat \<Rightarrow> bool" where
  "is_cont b \<longleftrightarrow> 0x80 \<le> b \<and> b < 0xC0"

fun utf8_code_point :: "nat list \<Rightarrow> nat option" where
  "utf8_code_point [b0, b1] =
     (let v = (b0 - 0xC0) * 64 + (b1 - 0x80)
      in if is_cont b1 \<and> 0x80 \<le> v then Some v else None)"
| "utf8_code_point [b0, b1, b2] =
     (let v = (b0 - 0xE0) * 4096 + (b1 - 0x80) * 64 + (b2 - 0x80)
      in if is_cont b1 \<and> is_cont b2 \<and> 0x800 \<le> v \<and> \<not> (0xD800 \<le> v \<and> v \<le> 0xDFFF)
         then Some v else None)"
| "utf8_code_point [b0, b1, b2, b3] =
     (let v = (b0 - 0xF0) * 262144 + (b1 - 0x80) * 4096 + (b2 - 0x80) * 64 + (b3 - 0x80)
      in if is_cont b1 \<and> is_cont b2 \<and> is_cont b3 \<and> 0x10000 \<le> v \<and> v \<le> 0x10FFFF
         then Some v else None)"
| "utf8_code_point _ = None"

definition utf16_encode :: "nat \<Rightarrow> jsstring" where
  "utf16_encode v =
     (if v < 0x10000 then [of_nat v]
      else [of_nat (0xD800 + (v - 0x10000) div 1024), of_nat (0xDC00 + (v - 0x10000) mod 1024)])"

definition prepend :: "jsstring \<Rightarrow> error + jsstring \<Rightarrow> error + jsstring" where
  "prepend s r = (case r of Inl e \<Rightarrow> Inl e | Inr t \<Rightarrow> Inr (s @ t))"

function decodeURIComponent :: "jsstring \<Rightarrow> error + jsstring" where
  "decodeURIComponent [] = Inr []"
| "decodeURIComponent (c # r) =
     (if c \<noteq> 0x25 then prepend [c] (decodeURIComponent r)
      else (case hex_octet (take 2 r) of
              None \<Rightarrow> Inl URIError
            | Some b \<Rightarrow>
                if b < 0x80 then prepend [of_nat b] (decodeURIComponent (drop 2 r))
                else if b < 0xC0 \<or> 0xF8 \<le> b then Inl URIError
                else let n = (if b < 0xE0 then 2 else if b < 0xF0 then 3 else 4);
                         k = 3 * (n - 1)
                     in (case escapes (n - 1) (take k (drop 2 r)) of
                           None \<Rightarrow> Inl URIError
                         | Some bs \<Rightarrow>
                             (case utf8_code_point (b # bs) of
                                None \<Rightarrow> Inl URIError
                              | Some v \<Rightarrow>
                                  prepend (utf16_encode v)
                                    (decodeURIComponent (drop k (drop 2 r)))))))"
  by pat_completeness auto
termination
  by (relation "measure length") auto

declare decodeURIComponent.simps(2) [simp del]

subsection \<open>JSON values\<close>

text \<open>
  What \<^verbatim>\<open>resp.json()\<close> resolves to. An object is the list of its own properties, each
  key once.
\<close>

datatype json =
    JNull
  | JBool bool
  | JNum jsnum
  | JStr jsstring
  | JArr "json list"
  | JObj "(jsstring \<times> json) list"

text \<open>\<^verbatim>\<open>ToBoolean\<close>, as \<^verbatim>\<open>||\<close> applies it.\<close>

fun truthy :: "json \<Rightarrow> bool" where
  "truthy JNull = False"
| "truthy (JBool b) = b"
| "truthy (JNum n) = (n \<noteq> NumNaN \<and> n \<noteq> NumInt 0)"
| "truthy (JStr s) = (s \<noteq> [])"
| "truthy (JArr _) = True"
| "truthy (JObj _) = True"

text \<open>
  Reading one of the properties the script reads (\<^verbatim>\<open>detail\<close>, \<^verbatim>\<open>script\<close>,
  \<^verbatim>\<open>changes_summary\<close>; no built-in prototype defines them): \<^verbatim>\<open>null\<close> throws, an
  object gives its own property, any other value gives \<^verbatim>\<open>undefined\<close>.
\<close>

fun get_prop :: "json \<Rightarrow> jsstring \<Rightarrow> error + json option" where
  "get_prop JNull k = Inl TypeError_nullish"
| "get_prop (JObj kvs) k = Inr (map_of kvs k)"
| "get_prop _ k = Inr None"

text \<open>\<^verbatim>\<open>v || d\<close> for a property that was read.\<close>

definition or_json :: "json option \<Rightarrow> json \<Rightarrow> json" where
  "or_json v d = (case v of None \<Rightarrow> d | Some x \<Rightarrow> if truthy x then x else d)"

text \<open>
  \<^verbatim>\<open>ToString\<close>: an array joins its elements with commas, \<^verbatim>\<open>null\<close> elements as the
  empty string; a plain object is \<^verbatim>\<open>[object Object]\<close>, unless it has an own property
  \<^verbatim>\<open>toString\<close>, which from JSON is never callable, and then no primitive value is
  found and a TypeError is thrown.
\<close>

fun join_comma :: "jsstring list \<Rightarrow> jsstring" where
  "join_comma [] = []"
| "join_comma [s] = s"
| "join_comma (s # t # ss) = s @ 0x2C # join_comma (t # ss)"

fun to_string :: "json \<Rightarrow> error + jsstring" where
  "to_string JNull = Inr (js ''null'')"
| "to_string (JBool b) = Inr (if b then js ''true'' else js ''false'')"
| "to_string (JNum n) = Inr (num_text n)"
| "to_string (JStr s) = Inr s"
| "to_string (JArr xs) =
     (let rs = map (\<lambda>x. if x = JNull then Inr [] else to_string x) xs
      in case find isl rs of
           Some (Inl e) \<Rightarrow> Inl e
         | _ \<Rightarrow> Inr (join_comma (map projr rs)))"
| "to_string (JObj kvs) =
     (if js ''toString'' \<in> fst ` set kvs then Inl TypeError_primitive
      else Inr (js ''[object Object]''))"

subsection \<open>The page\<close>

text \<open>
  The page is assumed to contain every element the script looks up by id; the form's named
  controls and the active tab may be missing, as the optional chaining of the source allows.
  Element ids and property names are the literals of the source.
\<close>

record element =
  classList :: "jsstring list"
  data_tab :: "jsstring option"

text \<open>
  \<^verbatim>\<open>form[name]\<close> is \<open>None\<close> when the form has no such control; \<open>cvalue\<close> is \<open>None\<close>
  when the control has no \<^verbatim>\<open>value\<close> property.
\<close>

record control =
  cvalue :: "jsstring option"

record payload =
  base_script :: jsstring
  jd_api_endpoint :: jsstring
  jd_api_key :: jsstring
  job_id :: jsstring
  jd_raw :: jsstring
  candidate_name :: jsstring
  target_role :: jsstring
  company_name :: jsstring

text \<open>The argument of \<^verbatim>\<open>fetch\<close>; \<open>body\<close> is the object given to \<^verbatim>\<open>JSON.stringify\<close>.\<close>

record request =
  url :: jsstring
  http_method :: jsstring
  headers :: "(jsstring \<times> jsstring) list"
  body :: payload

type_synonym blob = "8 word list"

text \<open>An object URL is the number \<^verbatim>\<open>URL.createObjectURL\<close> issued it under.\<close>

record anchor =
  href :: nat
  download :: jsstring

text \<open>What the script does to the world outside the elements it writes, in order.\<close>

datatype effect =
    PreventDefault
  | Fetch request
  | CreateObjectURL blob nat
  | AppendChild anchor
  | Click anchor
  | RemoveChild anchor
  | RevokeObjectURL nat
  | ScrollIntoView string

text \<open>
  A running interval timer: its id, its delay in milliseconds, and the variable
  \<^verbatim>\<open>idx\<close> its callback closes over.
\<close>

record timer =
  timer_id :: nat
  delay :: nat
  idx :: nat

record page =
  document_elements :: "element list"
  form :: "string \<Rightarrow> control option"
  classes :: "string \<Rightarrow> jsstring list"
  textContent :: "string \<Rightarrow> jsstring"
  disabled :: "string \<Rightarrow> bool"
  scriptOutput_value :: jsstring
  stepTimer :: "nat option"
  timers :: "timer list"
  next_timer :: nat
  next_url :: nat
  effects :: "effect list"

definition class_remove :: "string \<Rightarrow> jsstring list \<Rightarrow> page \<Rightarrow> page" where
  "class_remove i cs p = p\<lparr>classes := (classes p)(i := filter (\<lambda>c. c \<notin> set cs) (classes p i))\<rparr>"

definition class_add :: "string \<Rightarrow> jsstring \<Rightarrow> page \<Rightarrow> page" where
  "class_add i c p =
     p\<lparr>classes := (classes p)(i := (if c \<in> set (classes p i) then classes p i
                                      else classes p i @ [c]))\<rparr>"

definition set_text :: "string \<Rightarrow> jsstring \<Rightarrow> page \<Rightarrow> page" where
  "set_text i t p = p\<lparr>textContent := (textContent p)(i := t)\<rparr>"

definition set_disabled :: "string \<Rightarrow> bool \<Rightarrow> page \<Rightarrow> page" where
  "set_disabled i b p = p\<lparr>disabled := (disabled p)(i := b)\<rparr>"

definition emit :: "effect list \<Rightarrow> page \<Rightarrow> page" where
  "emit es p = p\<lparr>effects := effects p @ es\<rparr>"

subsection \<open>Loading steps\<close>

definition STEPS :: "string list" where
  "STEPS = [''step-1'', ''step-2'', ''step-3'', ''step-4'']"

definition setInterval :: "nat \<Rightarrow> page \<Rightarrow> page" where
  "setInterval ms p =
     p\<lparr>timers := timers p @ [\<lparr>timer_id = next_timer p, delay = ms, idx = 0\<rparr>],
       stepTimer := Some (next_timer p),
       next_timer := Suc (next_timer p)\<rparr>"

definition showLoading :: "page \<Rightarrow> page" where
  "showLoading p =
     (let p1 = class_remove ''loading-overlay'' [js ''hidden''] p;
          p2 = fold (\<lambda>s. class_remove s [js ''active'', js ''done'']) STEPS p1;
          p3 = class_add (STEPS ! 0) (js ''active'') p2
      in setInterval 4000 p3)"

text \<open>One firing of the interval callback of timer \<open>i\<close>; a cleared timer does not fire.\<close>

definition tick :: "nat \<Rightarrow> page \<Rightarrow> page" where
  "tick i p =
     (case find (\<lambda>t. timer_id t = i) (timers p) of
        None \<Rightarrow> p
      | Some t \<Rightarrow>
          if idx t < length STEPS - 1
          then let p1 = class_remove (STEPS ! idx t) [js ''active''] p;
                   p2 = class_add (STEPS ! idx t) (js ''done'') p1;
                   p3 = p2\<lparr>timers := map (\<lambda>u. if timer_id u = i then u\<lparr>idx := idx t + 1\<rparr> else u)
                                        (timers p2)\<rparr>
               in class_add (STEPS ! (idx t + 1)) (js ''active'') p3
          else p)"

definition clearInterval :: "nat option \<Rightarrow> page \<Rightarrow> page" where
  "clearInterval h p =
     (case h of None \<Rightarrow> p | Some i \<Rightarrow> p\<lparr>timers := filter (\<lambda>t. timer_id t \<noteq> i) (timers p)\<rparr>)"

definition hideLoading :: "page \<Rightarrow> page" where
  "hideLoading p =
     (let p1 = clearInterval (stepTimer p) p;
          p2 = class_add ''loading-overlay'' (js ''hidden'') p1
      in fold (\<lambda>s. class_remove s [js ''active'', js ''done'']) STEPS p2)"

subsection \<open>Collect form data\<close>

definition matches_tab_active :: "element \<Rightarrow> bool" where
  "matches_tab_active e \<longleftrightarrow> js ''tab'' \<in> set (classList e) \<and> js ''active'' \<in> set (classList e)"

text \<open>\<^verbatim>\<open>document.querySelector('.tab.active')?.dataset.tab\<close>\<close>

definition activeTab :: "page \<Rightarrow> jsstring option" where
  "activeTab p =
     (case find matches_tab_active (document_elements p) of None \<Rightarrow> None | Some e \<Rightarrow> data_tab e)"

text \<open>\<^verbatim>\<open>form[name]?.value?.trim()\<close>\<close>

definition field_text :: "page \<Rightarrow> string \<Rightarrow> jsstring option" where
  "field_text p name =
     (case form p name of
        None \<Rightarrow> None
      | Some c \<Rightarrow> (case cvalue c of None \<Rightarrow> None | Some v \<Rightarrow> Some (trim v)))"

text \<open>
  \<^verbatim>\<open>form['base_script'].value.trim()\<close> has no optional chaining: a missing control or
  value throws.
\<close>

definition collectFormData :: "page \<Rightarrow> error + payload" where
  "collectFormData p =
     (let tab = activeTab p in
      case field_text p ''base_script'' of
        None \<Rightarrow> Inl TypeError_nullish
      | Some script \<Rightarrow>
          Inr \<lparr>base_script = script,
               jd_api_endpoint =
                 (if tab = Some (js ''api'') then or_str (field_text p ''jd_api_endpoint'') []
                  else []),
               jd_api_key =
                 (if tab = Some (js ''api'') then or_str (field_text p ''jd_api_key'') [] else []),
               job_id =
                 (if tab = Some (js ''api'') then or_str (field_text p ''job_id'') [] else []),
               jd_raw =
                 (if tab = Some (js ''paste'') then or_str (field_text p ''jd_raw'') [] else []),
               candidate_name =
                 or_str (field_text p ''candidate_name'') (js ''BHARATH KUMAR RAJESH''),
               target_role = or_str (field_text p ''target_role'') [],
               company_name = or_str (field_text p ''company_name'') []\<rparr>)"

subsection \<open>Validate\<close>

definition validate :: "page \<Rightarrow> payload \<Rightarrow> jsstring option" where
  "validate p data =
     (let tab = activeTab p in
      if tab = Some (js ''paste'') \<and> jd_raw data = []
      then Some (js ''Please paste a job description.'')
      else if tab = Some (js ''api'') \<and> job_id data = []
      then Some (js ''Please enter a Job ID or Job URL.'')
      else None)"

subsection \<open>Show and hide\<close>

definition showResults :: "jsstring \<Rightarrow> jsnum \<Rightarrow> page \<Rightarrow> page" where
  "showResults summary pages p =
     (let p1 = class_remove ''results-panel'' [js ''hidden''] p;
          p2 = set_text ''changes-summary''
                 (or_str (Some summary) (js ''Resume tailored successfully using Claude AI.'')) p1;
          p3 = set_text ''page-badge''
                 ([0xD83D, 0xDCC4, 0x20] @ num_text pages @ js '' Page''
                  @ (if pages \<noteq> NumInt 1 then js ''s'' else []) @ [0x20, 0xB7, 0x20]
                  @ js ''ATS Ready'') p2
      in emit [ScrollIntoView ''results-panel''] p3)"

definition showError :: "jsstring \<Rightarrow> page \<Rightarrow> page" where
  "showError msg p =
     (let p1 = class_remove ''error-panel'' [js ''hidden''] p;
          p2 = set_text ''error-body'' msg p1
      in emit [ScrollIntoView ''error-panel''] p2)"

definition hideMessages :: "page \<Rightarrow> page" where
  "hideMessages p =
     class_add ''error-panel'' (js ''hidden'') (class_add ''results-panel'' (js ''hidden'') p)"


subsection \<open>What the network delivers\<close>

text \<open>
  A promise settles: it is fulfilled with a value or rejected with a reason, of which the
  script reads only \<^verbatim>\<open>message\<close>. A response has its status, the answers of
  \<^verbatim>\<open>headers.get\<close>, and what \<^verbatim>\<open>json()\<close> and \<^verbatim>\<open>blob()\<close> settle to.
\<close>

datatype 'a settled = Fulfilled 'a | RejectedWith jsstring

record response =
  status :: nat
  header :: "string \<Rightarrow> jsstring option"
  json_body :: "json settled"
  blob_body :: "blob settled"

definition ok :: "response \<Rightarrow> bool" where
  "ok r \<longleftrightarrow> 200 \<le> status r \<and> status r \<le> 299"

text \<open>
  The variable \<^verbatim>\<open>detail\<close> when a response is not ok: the server's \<^verbatim>\<open>detail\<close> if the
  body is JSON that has a truthy one, otherwise \<^verbatim>\<open>Server error\<close> and the status. The
  inner \<^verbatim>\<open>try\<close> swallows a body that is not JSON and a body that is \<^verbatim>\<open>null\<close>.
\<close>

definition server_detail :: "response \<Rightarrow> json" where
  "server_detail r =
     (let detail = JStr (js ''Server error '' @ nat_digits (status r)) in
      case json_body r of
        RejectedWith _ \<Rightarrow> detail
      | Fulfilled j \<Rightarrow>
          (case get_prop j (js ''detail'') of Inl _ \<Rightarrow> detail | Inr d \<Rightarrow> or_json d detail))"

text \<open>\<^verbatim>\<open>throw new Error(detail)\<close>: the constructor converts its argument to a string.\<close>

definition new_Error :: "json \<Rightarrow> error" where
  "new_Error detail = (case to_string detail of Inl e \<Rightarrow> e | Inr m \<Rightarrow> Error m)"

datatype progress = Threw error | Returned | Awaiting

definition post_json :: "jsstring \<Rightarrow> payload \<Rightarrow> request" where
  "post_json u data =
     \<lparr>url = u, http_method = js ''POST'',
      headers = [(js ''Content-Type'', js ''application/json'')], body = data\<rparr>"

subsection \<open>Generate PDF: the form's submit handler\<close>

text \<open>From the event to the \<^verbatim>\<open>await\<close> of \<^verbatim>\<open>fetch\<close>.\<close>

definition submit_fired :: "page \<Rightarrow> page \<times> progress" where
  "submit_fired p0 =
     (let p = emit [PreventDefault] p0 in
      case collectFormData p of
        Inl e \<Rightarrow> (p, Threw e)
      | Inr data \<Rightarrow>
          (let sent =
                 (let p1 = hideMessages p;
                      p2 = showLoading p1;
                      p3 = set_disabled ''generate-btn'' True p2;
                      p4 = set_disabled ''script-btn'' True p3;
                      p5 = set_text ''btn-label'' (js ''Tailoring'' @ [0x2026]) p4
                  in (emit [Fetch (post_json (js ''/tailor'') data)] p5, Awaiting))
           in case validate p data of
                None \<Rightarrow> sent
              | Some err \<Rightarrow>
                  if err \<noteq> [] then (showError err (hideMessages p), Returned) else sent))"

text \<open>The \<^verbatim>\<open>try\<close> block from the settled \<^verbatim>\<open>fetch\<close> on: the page and what was thrown.\<close>

definition submit_try :: "engine \<Rightarrow> response settled \<Rightarrow> page \<Rightarrow> page \<times> error option" where
  "submit_try eng fetched p =
     (case fetched of
        RejectedWith m \<Rightarrow> (p, Some (Rejection m))
      | Fulfilled resp \<Rightarrow>
          if \<not> ok resp then (p, Some (new_Error (server_detail resp)))
          else let pages = parseInt10 eng (or_str (header resp ''X-Pages'') (js ''1'')) in
               (case decodeURIComponent (or_str (header resp ''X-Changes-Summary'') []) of
                  Inl e \<Rightarrow> (p, Some e)
                | Inr changes \<Rightarrow>
                    (case blob_body resp of
                       RejectedWith m \<Rightarrow> (p, Some (Rejection m))
                     | Fulfilled b \<Rightarrow>
                         (let u = next_url p;
                              a = \<lparr>href = u, download = js ''Bharath_Kumar_Tailored_Resume.pdf''\<rparr>;
                              p1 = emit [CreateObjectURL b u, AppendChild a, Click a,
                                         RemoveChild a, RevokeObjectURL u]
                                     (p\<lparr>next_url := Suc u\<rparr>)
                          in (showResults changes pages p1, None)))))"

text \<open>The whole continuation: \<^verbatim>\<open>try\<close>, \<^verbatim>\<open>catch\<close>, \<^verbatim>\<open>finally\<close>.\<close>

definition submit_settled :: "engine \<Rightarrow> response settled \<Rightarrow> page \<Rightarrow> page" where
  "submit_settled eng fetched p =
     (let (p1, thrown) = submit_try eng fetched p;
          p2 = (case thrown of
                  None \<Rightarrow> p1
                | Some err \<Rightarrow>
                    showError (or_str (Some (message eng err))
                                 (js ''An unexpected error occurred. Check the server logs.'')) p1);
          p3 = hideLoading p2;
          p4 = set_disabled ''generate-btn'' False p3;
          p5 = set_disabled ''script-btn'' False p4
      in set_text ''btn-label'' (js ''Generate Tailored PDF'') p5)"

subsection \<open>Get Script: the script button's click handler\<close>

definition script_fired :: "page \<Rightarrow> page \<times> progress" where
  "script_fired p =
     (case collectFormData p of
        Inl e \<Rightarrow> (p, Threw e)
      | Inr data \<Rightarrow>
          (let sent =
                 (let p1 = hideMessages p;
                      p2 = showLoading p1;
                      p3 = set_disabled ''generate-btn'' True p2;
                      p4 = set_disabled ''script-btn'' True p3
                  in (emit [Fetch (post_json (js ''/script'') data)] p4, Awaiting))
           in case validate p data of
                None \<Rightarrow> sent
              | Some err \<Rightarrow>
                  if err \<noteq> [] then (showError err (hideMessages p), Returned) else sent))"

text \<open>
  Assigning to \<^verbatim>\<open>value\<close> and to \<^verbatim>\<open>textContent\<close> converts to a string, which can
  throw after the first assignment is done.
\<close>

definition script_try :: "engine \<Rightarrow> response settled \<Rightarrow> page \<Rightarrow> page \<times> error option" where
  "script_try eng fetched p =
     (case fetched of
        RejectedWith m \<Rightarrow> (p, Some (Rejection m))
      | Fulfilled resp \<Rightarrow>
          if \<not> ok resp then (p, Some (new_Error (server_detail resp)))
          else (case json_body resp of
                  RejectedWith m \<Rightarrow> (p, Some (Rejection m))
                | Fulfilled j \<Rightarrow>
                    (case get_prop j (js ''script'') of
                       Inl e \<Rightarrow> (p, Some e)
                     | Inr s \<Rightarrow>
                         (case to_string (or_json s (JStr [])) of
                            Inl e \<Rightarrow> (p, Some e)
                          | Inr sv \<Rightarrow>
                              (let p1 = p\<lparr>scriptOutput_value := sv\<rparr> in
                               case get_prop j (js ''changes_summary'') of
                                 Inl e \<Rightarrow> (p1, Some e)
                               | Inr c \<Rightarrow>
                                   (case to_string (or_json c (JStr [])) of
                                      Inl e \<Rightarrow> (p1, Some e)
                                    | Inr cv \<Rightarrow>
                                        (class_remove ''script-modal'' [js ''hidden'']
                                           (set_text ''changes-modal-summary'' cv p1),
                                         None)))))))"

definition script_settled :: "engine \<Rightarrow> response settled \<Rightarrow> page \<Rightarrow> page" where
  "script_settled eng fetched p =
     (let (p1, thrown) = script_try eng fetched p;
          p2 = (case thrown of
                  None \<Rightarrow> p1
                | Some err \<Rightarrow>
                    showError (or_str (Some (message eng err))
                                 (js ''Script generation failed. Check the server logs.'')) p1);
          p3 = hideLoading p2;
          p4 = set_disabled ''generate-btn'' False p3
      in set_disabled ''script-btn'' False p4)"

subsection \<open>Failed requests, runs, and sample pages\<close>

text \<open>A request fails when \<^verbatim>\<open>fetch\<close> throws or the response status is not ok.\<close>

definition failed :: "response settled \<Rightarrow> bool" where
  "failed fetched = (case fetched of RejectedWith _ \<Rightarrow> True | Fulfilled resp \<Rightarrow> \<not> ok resp)"


text \<open>\<open>k\<close> firings of the timer that \<^verbatim>\<open>stepTimer\<close> holds.\<close>

definition ticks :: "nat \<Rightarrow> page \<Rightarrow> page" where
  "ticks k p = (case stepTimer p of None \<Rightarrow> p | Some i \<Rightarrow> (tick i ^^ k) p)"

text \<open>For each loading step in order: whether it is marked active, and whether done.\<close>

definition step_marks :: "page \<Rightarrow> (bool \<times> bool) list" where
  "step_marks p =
     map (\<lambda>s. (js ''active'' \<in> set (classes p s), js ''done'' \<in> set (classes p s))) STEPS"

text \<open>
  The loading indicator stands at step \<open>j\<close> (counted from 0): timer \<open>i\<close> is the only one
  running, \<^verbatim>\<open>stepTimer\<close> holds it, its \<^verbatim>\<open>idx\<close> is \<open>j\<close>, the steps before \<open>j\<close> are
  done and step \<open>j\<close> is active.
\<close>

definition loading_at :: "nat \<Rightarrow> nat \<Rightarrow> page \<Rightarrow> bool" where
  "loading_at i j p \<longleftrightarrow>
     stepTimer p = Some i
     \<and> timers p = [\<lparr>timer_id = i, delay = 4000, idx = j\<rparr>]
     \<and> step_marks p = map (\<lambda>n. (n = j, n < j)) [0, 1, 2, 3]"

text \<open>
  A sample engine, with the message texts of one browser. No sample parses a number beyond
  \<open>2^53\<close>, so its \<open>big_int_text\<close> is never consulted.
\<close>

definition sample_engine :: engine where
  "sample_engine =
     \<lparr>msg_nullish = js ''Cannot read properties of null'',
      msg_primitive = js ''Cannot convert object to primitive value'',
      msg_uri = js ''URI malformed'',
      big_int_text = int_text\<rparr>"

definition sample_tabs :: "jsstring option \<Rightarrow> element list" where
  "sample_tabs a =
     [\<lparr>classList = js ''tab'' # (if a = Some (js ''paste'') then [js ''active''] else []),
       data_tab = Some (js ''paste'')\<rparr>,
      \<lparr>classList = js ''tab'' # (if a = Some (js ''api'') then [js ''active''] else []),
       data_tab = Some (js ''api'')\<rparr>]"

definition sample_form :: "jsstring \<Rightarrow> jsstring \<Rightarrow> string \<Rightarrow> control option" where
  "sample_form jd job name =
     (if name = ''base_script'' then Some \<lparr>cvalue = Some (js ''story = []'')\<rparr>
      else if name = ''jd_raw'' then Some \<lparr>cvalue = Some jd\<rparr>
      else if name = ''job_id'' then Some \<lparr>cvalue = Some job\<rparr>
      else if name = ''jd_api_endpoint'' then Some \<lparr>cvalue = Some (js ''https://jobs.example/api'')\<rparr>
      else if name = ''candidate_name'' then Some \<lparr>cvalue = Some (js ''  '')\<rparr>
      else if name = ''target_role'' then Some \<lparr>cvalue = Some (js '' Engineer '')\<rparr>
      else None)"

definition sample_classes :: "string \<Rightarrow> jsstring list" where
  "sample_classes i =
     (if i = ''loading-overlay'' then [js ''overlay'', js ''hidden'']
      else if i = ''results-panel'' then [js ''hidden'']
      else if i = ''error-panel'' then [js ''hidden'']
      else if i = ''script-modal'' then [js ''modal'', js ''hidden'']
      else [js ''step''])"

definition sample_page :: "jsstring option \<Rightarrow> jsstring \<Rightarrow> jsstring \<Rightarrow> page" where
  "sample_page a jd job =
     \<lparr>document_elements = sample_tabs a,
      form = sample_form jd job,
      classes = sample_classes,
      textContent = (\<lambda>i. []),
      disabled = (\<lambda>i. False),
      scriptOutput_value = [],
      stepTimer = None,
      timers = [],
      next_timer = 1,
      next_url = 0,
      effects = []\<rparr>"

text \<open>A response with the given status, headers and JSON body; its file body is \<^verbatim>\<open>%PDF\<close>.\<close>

definition sample_response ::
  "nat \<Rightarrow> (string \<Rightarrow> jsstring option) \<Rightarrow> json settled \<Rightarrow> response" where
  "sample_response st h j =
     \<lparr>status = st, header = h, json_body = j, blob_body = Fulfilled [0x25, 0x50, 0x44, 0x46]\<rparr>"


definition no_headers :: "string \<Rightarrow> jsstring option" where
  "no_headers name = None"

definition loading_page :: page where
  "loading_page = fst (submit_fired (sample_page (Some (js ''paste'')) (js ''Build APIs'') []))"

section \<open>Properties\<close>

subsection \<open>Auxiliary facts\<close>

lemmas sample_defs = sample_page_def sample_tabs_def sample_form_def sample_classes_def

lemma activeTab_sample:
  "activeTab (sample_page a jd job) =
     (if a = Some (js ''paste'') \<or> a = Some (js ''api'') then a else None)"
  by (simp add: activeTab_def sample_defs matches_tab_active_def js_def)

lemma field_text_sample:
  "field_text (sample_page a jd job) ''base_script'' = Some (js ''story = []'')"
  "field_text (sample_page a jd job) ''jd_raw'' = Some (trim jd)"
  "field_text (sample_page a jd job) ''job_id'' = Some (trim job)"
  "field_text (sample_page a jd job) ''jd_api_endpoint'' = Some (js ''https://jobs.example/api'')"
  "field_text (sample_page a jd job) ''jd_api_key'' = None"
  "field_text (sample_page a jd job) ''candidate_name'' = Some []"
  "field_text (sample_page a jd job) ''target_role'' = Some (js ''Engineer'')"
  "field_text (sample_page a jd job) ''company_name'' = None"
  by (simp_all add: field_text_def sample_defs trim_def is_white_space_def js_def)

lemma trim_samples:
  "trim (js ''  '') = []"
  "trim (js '' Build APIs '') = js ''Build APIs''"
  "trim (js ''J-1'') = js ''J-1''"
  "trim [] = []"
  by (simp_all add: trim_def is_white_space_def js_def)

lemma collect_sample:
  "collectFormData (sample_page a jd job) =
     Inr \<lparr>base_script = js ''story = []'',
          jd_api_endpoint = (if a = Some (js ''api'') then js ''https://jobs.example/api'' else []),
          jd_api_key = [],
          job_id = (if a = Some (js ''api'') then trim job else []),
          jd_raw = (if a = Some (js ''paste'') then trim jd else []),
          candidate_name = js ''BHARATH KUMAR RAJESH'',
          target_role = js ''Engineer'',
          company_name = []\<rparr>"
  by (simp add: collectFormData_def field_text_sample or_str_def activeTab_sample js_def)

lemma or_str_blank: "x \<in> {None, Some []} \<Longrightarrow> or_str x d = d"
  by (auto simp: or_str_def)

lemma or_str_empty_iff: "or_str x [] = [] \<longleftrightarrow> x \<in> {None, Some []}"
  by (auto simp: or_str_def split: option.splits)

lemma collect_fields:
  assumes "collectFormData p = Inr data"
  shows "field_text p ''base_script'' = Some (base_script data)"
    and "jd_api_endpoint data =
          (if activeTab p = Some (js ''api'') then or_str (field_text p ''jd_api_endpoint'') [] else [])"
    and "jd_api_key data =
          (if activeTab p = Some (js ''api'') then or_str (field_text p ''jd_api_key'') [] else [])"
    and "job_id data =
          (if activeTab p = Some (js ''api'') then or_str (field_text p ''job_id'') [] else [])"
    and "jd_raw data =
          (if activeTab p = Some (js ''paste'') then or_str (field_text p ''jd_raw'') [] else [])"
    and "candidate_name data = or_str (field_text p ''candidate_name'') (js ''BHARATH KUMAR RAJESH'')"
    and "target_role data = or_str (field_text p ''target_role'') []"
    and "company_name data = or_str (field_text p ''company_name'') []"
proof -
  from assms obtain s where s: "field_text p ''base_script'' = Some s"
    by (cases "field_text p ''base_script''") (simp_all add: collectFormData_def)
  from assms have d: "data =
     \<lparr>base_script = s,
      jd_api_endpoint =
        (if activeTab p = Some (js ''api'') then or_str (field_text p ''jd_api_endpoint'') [] else []),
      jd_api_key =
        (if activeTab p = Some (js ''api'') then or_str (field_text p ''jd_api_key'') [] else []),
      job_id = (if activeTab p = Some (js ''api'') then or_str (field_text p ''job_id'') [] else []),
      jd_raw = (if activeTab p = Some (js ''paste'') then or_str (field_text p ''jd_raw'') [] else []),
      candidate_name = or_str (field_text p ''candidate_name'') (js ''BHARATH KUMAR RAJESH''),
      target_role = or_str (field_text p ''target_role'') [],
      company_name = or_str (field_text p ''company_name'') []\<rparr>"
    unfolding collectFormData_def Let_def s by simp
  show "field_text p ''base_script'' = Some (base_script data)" using s d by simp
  show "jd_api_endpoint data =
          (if activeTab p = Some (js ''api'') then or_str (field_text p ''jd_api_endpoint'') [] else [])"
    by (subst d) simp
  show "jd_api_key data =
          (if activeTab p = Some (js ''api'') then or_str (field_text p ''jd_api_key'') [] else [])"
    by (subst d) simp
  show "job_id data =
          (if activeTab p = Some (js ''api'') then or_str (field_text p ''job_id'') [] else [])"
    by (subst d) simp
  show "jd_raw data =
          (if activeTab p = Some (js ''paste'') then or_str (field_text p ''jd_raw'') [] else [])"
    by (subst d) simp
  show "candidate_name data = or_str (field_text p ''candidate_name'') (js ''BHARATH KUMAR RAJESH'')"
    by (subst d) simp
  show "target_role data = or_str (field_text p ''target_role'') []"
    by (subst d) simp
  show "company_name data = or_str (field_text p ''company_name'') []"
    by (subst d) simp
qed

lemma paste_neq_api: "js ''paste'' \<noteq> js ''api''"
  by (simp add: js_def)

lemmas page_ops = class_remove_def class_add_def set_text_def set_disabled_def emit_def

lemma js_nonempty [simp]: "js (c # cs) \<noteq> []"
  by (simp add: js_def)

lemma or_str_nonempty: "d \<noteq> [] \<Longrightarrow> or_str x d \<noteq> []"
  by (auto simp: or_str_def split: option.splits)

lemma hideLoading_frame:
  "effects (hideLoading p) = effects p"
  "disabled (hideLoading p) = disabled p"
  "textContent (hideLoading p) = textContent p"
  "scriptOutput_value (hideLoading p) = scriptOutput_value p"
  "stepTimer (hideLoading p) = stepTimer p"
  "next_url (hideLoading p) = next_url p"
  "timers (hideLoading p) = timers (clearInterval (stepTimer p) p)"
  by (simp_all add: hideLoading_def clearInterval_def STEPS_def page_ops Let_def
        split: option.splits)

lemma hideLoading_classes:
  "classes (hideLoading p) i =
     (if i = ''loading-overlay''
      then (if js ''hidden'' \<in> set (classes p i) then classes p i else classes p i @ [js ''hidden''])
      else if i \<in> set STEPS
      then filter (\<lambda>c. c \<noteq> js ''active'' \<and> c \<noteq> js ''done'') (classes p i)
      else classes p i)"
  by (simp add: hideLoading_def clearInterval_def STEPS_def page_ops Let_def
        split: option.splits)

lemma showError_frame:
  "effects (showError m p) = effects p @ [ScrollIntoView ''error-panel'']"
  "disabled (showError m p) = disabled p"
  "textContent (showError m p) = (textContent p)(''error-body'' := m)"
  "classes (showError m p) =
     (classes p)(''error-panel'' := filter (\<lambda>c. c \<noteq> js ''hidden'') (classes p ''error-panel''))"
  "stepTimer (showError m p) = stepTimer p"
  "timers (showError m p) = timers p"
  "scriptOutput_value (showError m p) = scriptOutput_value p"
  "next_url (showError m p) = next_url p"
  "next_timer (showError m p) = next_timer p"
  by (simp_all add: showError_def page_ops Let_def)

lemma submit_try_failed:
  "failed fetched \<Longrightarrow> \<exists>e. submit_try eng fetched p = (p, Some e)"
  by (cases fetched) (simp_all add: failed_def submit_try_def)

lemma script_try_failed:
  "failed fetched \<Longrightarrow> \<exists>e. script_try eng fetched p = (p, Some e)"
  by (cases fetched) (simp_all add: failed_def script_try_def)

lemma submit_settled_thrown:
  assumes "submit_try eng fetched p = (p1, Some e)"
  shows "submit_settled eng fetched p =
     set_text ''btn-label'' (js ''Generate Tailored PDF'')
       (set_disabled ''script-btn'' False
         (set_disabled ''generate-btn'' False
           (hideLoading
             (showError
               (or_str (Some (message eng e))
                  (js ''An unexpected error occurred. Check the server logs.'')) p1))))"
  by (simp add: submit_settled_def assms)

lemma script_settled_thrown:
  assumes "script_try eng fetched p = (p1, Some e)"
  shows "script_settled eng fetched p =
     set_disabled ''script-btn'' False
       (set_disabled ''generate-btn'' False
         (hideLoading
           (showError
             (or_str (Some (message eng e))
                (js ''Script generation failed. Check the server logs.'')) p1)))"
  by (simp add: script_settled_def assms)

lemma after_error_shown:
  assumes "m \<noteq> []"
  shows "js ''hidden'' \<in> set (classes (hideLoading (showError m p)) ''loading-overlay'')"
    and "js ''hidden'' \<notin> set (classes (hideLoading (showError m p)) ''error-panel'')"
    and "textContent (hideLoading (showError m p)) ''error-body'' = m"
  by (simp_all add: hideLoading_classes hideLoading_frame showError_frame STEPS_def)


lemma emit_reads:
  "activeTab (emit es p) = activeTab p"
  "field_text (emit es p) name = field_text p name"
  by (simp_all add: activeTab_def field_text_def emit_def)

lemma emit_frame:
  "collectFormData (emit es p) = collectFormData p"
  "validate (emit es p) data = validate p data"
  by (simp_all add: collectFormData_def validate_def emit_reads Let_def cong: option.case_cong)

lemma showLoading_frame:
  "effects (showLoading p) = effects p"
  "disabled (showLoading p) = disabled p"
  "textContent (showLoading p) = textContent p"
  "next_url (showLoading p) = next_url p"
  "stepTimer (showLoading p) = Some (next_timer p)"
  "timers (showLoading p) = timers p @ [\<lparr>timer_id = next_timer p, delay = 4000, idx = 0\<rparr>]"
  by (simp_all add: showLoading_def setInterval_def STEPS_def page_ops Let_def)

lemma hideMessages_frame:
  "effects (hideMessages p) = effects p"
  "disabled (hideMessages p) = disabled p"
  "textContent (hideMessages p) = textContent p"
  "stepTimer (hideMessages p) = stepTimer p"
  "timers (hideMessages p) = timers p"
  "next_timer (hideMessages p) = next_timer p"
  "next_url (hideMessages p) = next_url p"
  by (simp_all add: hideMessages_def page_ops)

lemma submit_fired_sent:
  assumes "collectFormData p = Inr data" and "validate p data = None"
  shows "submit_fired p =
     (emit [Fetch (post_json (js ''/tailor'') data)]
        (set_text ''btn-label'' (js ''Tailoring'' @ [0x2026])
          (set_disabled ''script-btn'' True
            (set_disabled ''generate-btn'' True
              (showLoading (hideMessages (emit [PreventDefault] p)))))),
      Awaiting)"
  by (simp add: submit_fired_def emit_frame assms)

lemma script_fired_sent:
  assumes "collectFormData p = Inr data" and "validate p data = None"
  shows "script_fired p =
     (emit [Fetch (post_json (js ''/script'') data)]
        (set_disabled ''script-btn'' True
          (set_disabled ''generate-btn'' True (showLoading (hideMessages p)))),
      Awaiting)"
  by (simp add: script_fired_def assms)

lemma fired_effects:
  assumes "collectFormData p = Inr data" and "validate p data = None"
  shows "effects (fst (submit_fired p)) =
           effects p @ [PreventDefault, Fetch (post_json (js ''/tailor'') data)]"
    and "effects (fst (script_fired p)) = effects p @ [Fetch (post_json (js ''/script'') data)]"
  by (simp_all add: submit_fired_sent [OF assms] script_fired_sent [OF assms]
        showLoading_frame hideMessages_frame set_text_def set_disabled_def emit_def)

lemma validate_no_tab: "activeTab p = None \<Longrightarrow> validate p data = None"
  by (simp add: validate_def)


lemma showResults_frame:
  "effects (showResults s n p) = effects p @ [ScrollIntoView ''results-panel'']"
  "disabled (showResults s n p) = disabled p"
  "stepTimer (showResults s n p) = stepTimer p"
  "timers (showResults s n p) = timers p"
  "scriptOutput_value (showResults s n p) = scriptOutput_value p"
  "classes (showResults s n p) =
     (classes p)(''results-panel'' := filter (\<lambda>c. c \<noteq> js ''hidden'') (classes p ''results-panel''))"
  "textContent (showResults s n p) ''changes-summary'' =
     or_str (Some s) (js ''Resume tailored successfully using Claude AI.'')"
  "textContent (showResults s n p) ''page-badge'' =
     [0xD83D, 0xDCC4, 0x20] @ num_text n @ js '' Page''
       @ (if n \<noteq> NumInt 1 then js ''s'' else []) @ [0x20, 0xB7, 0x20] @ js ''ATS Ready''"
  by (simp_all add: showResults_def page_ops Let_def)

lemma submit_try_ok:
  assumes "ok resp"
    and "decodeURIComponent (or_str (header resp ''X-Changes-Summary'') []) = Inr changes"
    and "blob_body resp = Fulfilled b"
  shows "submit_try eng (Fulfilled resp) p =
     (showResults changes (parseInt10 eng (or_str (header resp ''X-Pages'') (js ''1'')))
        (emit [CreateObjectURL b (next_url p),
               AppendChild \<lparr>href = next_url p, download = js ''Bharath_Kumar_Tailored_Resume.pdf''\<rparr>,
               Click \<lparr>href = next_url p, download = js ''Bharath_Kumar_Tailored_Resume.pdf''\<rparr>,
               RemoveChild \<lparr>href = next_url p, download = js ''Bharath_Kumar_Tailored_Resume.pdf''\<rparr>,
               RevokeObjectURL (next_url p)]
           (p\<lparr>next_url := Suc (next_url p)\<rparr>)),
      None)"
  by (simp add: submit_try_def assms Let_def)

lemma submit_settled_done:
  assumes "submit_try eng fetched p = (p1, None)"
  shows "submit_settled eng fetched p =
     set_text ''btn-label'' (js ''Generate Tailored PDF'')
       (set_disabled ''script-btn'' False (set_disabled ''generate-btn'' False (hideLoading p1)))"
  by (simp add: submit_settled_def assms)

lemma script_settled_done:
  assumes "script_try eng fetched p = (p1, None)"
  shows "script_settled eng fetched p =
     set_disabled ''script-btn'' False (set_disabled ''generate-btn'' False (hideLoading p1))"
  by (simp add: script_settled_def assms)

lemma parseInt10_one: "parseInt10 eng (js ''1'') = NumInt 1"
  by (simp add: parseInt10_def js_def is_white_space_def is_digit_def digits_value_def)

lemma int_text_one: "int_text 1 = js ''1''"
  by (simp add: int_text_def nat_digits.simps js_def)

lemma decode_empty: "decodeURIComponent [] = Inr []"
  by simp


lemma loading_page_effects:
  "effects loading_page =
     [PreventDefault,
      Fetch \<lparr>url = js ''/tailor'', http_method = js ''POST'',
             headers = [(js ''Content-Type'', js ''application/json'')],
             body = \<lparr>base_script = js ''story = []'', jd_api_endpoint = [], jd_api_key = [],
                      job_id = [], jd_raw = js ''Build APIs'',
                      candidate_name = js ''BHARATH KUMAR RAJESH'',
                      target_role = js ''Engineer'', company_name = []\<rparr>\<rparr>]"
proof -
  let ?p = "sample_page (Some (js ''paste'')) (js ''Build APIs'') []"
  let ?d = "\<lparr>base_script = js ''story = []'', jd_api_endpoint = [], jd_api_key = [],
            job_id = [], jd_raw = js ''Build APIs'', candidate_name = js ''BHARATH KUMAR RAJESH'',
            target_role = js ''Engineer'', company_name = []\<rparr>"
  have t: "trim (js ''Build APIs'') = js ''Build APIs''"
    by (simp add: trim_def is_white_space_def js_def)
  have c: "collectFormData ?p = Inr ?d"
    by (simp add: collect_sample t paste_neq_api)
  have v: "validate ?p ?d = None"
    by (simp add: validate_def activeTab_sample paste_neq_api js_def)
  have e: "effects ?p = []" by (simp add: sample_page_def)
  show ?thesis
    unfolding loading_page_def fired_effects(1) [OF c v] e by (simp add: post_json_def)
qed


lemma sample_response_fields:
  "status (sample_response st h j) = st"
  "header (sample_response st h j) = h"
  "json_body (sample_response st h j) = j"
  "blob_body (sample_response st h j) = Fulfilled [0x25, 0x50, 0x44, 0x46]"
  "ok (sample_response 200 h j)"
  "\<not> ok (sample_response 500 h j)"
  "\<not> ok (sample_response 422 h j)"
  by (simp_all add: sample_response_def ok_def)




lemma hideLoading_stops:
  "\<forall>t \<in> set (timers (hideLoading p)). Some (timer_id t) \<noteq> stepTimer p"
  by (auto simp: hideLoading_frame clearInterval_def split: option.splits)









lemma script_try_ok:
  assumes "ok resp" and "json_body resp = Fulfilled (JObj kvs)"
    and "map_of kvs (js ''script'') = Some (JStr s)"
    and "map_of kvs (js ''changes_summary'') = Some (JStr c)"
  shows "script_try eng (Fulfilled resp) p =
     (class_remove ''script-modal'' [js ''hidden'']
        (set_text ''changes-modal-summary'' c (p\<lparr>scriptOutput_value := s\<rparr>)), None)"
  by (simp add: script_try_def assms or_json_def)

lemma active_neq_done: "js ''active'' \<noteq> js ''done''" "js ''done'' \<noteq> js ''active''"
  by (simp_all add: js_def)

lemma showLoading_loading:
  assumes "timers p = []"
  shows "loading_at (next_timer p) 0 (showLoading p)"
  using assms
  by (simp add: loading_at_def step_marks_def showLoading_def setInterval_def STEPS_def page_ops
        Let_def active_neq_done)

lemma tick_loading:
  assumes "loading_at i j p" and "j \<le> 3"
  shows "loading_at i (min (Suc j) 3) (tick i p)"
proof -
  from assms(2) consider "j = 0" | "j = 1" | "j = 2" | "j = 3" by linarith
  then show ?thesis
  proof cases
    case 1
    with assms(1) show ?thesis
      by (simp add: loading_at_def step_marks_def tick_def STEPS_def page_ops Let_def
          active_neq_done)
  next
    case 2
    with assms(1) show ?thesis
      by (simp add: loading_at_def step_marks_def tick_def STEPS_def page_ops Let_def
          active_neq_done)
  next
    case 3
    with assms(1) show ?thesis
      by (simp add: loading_at_def step_marks_def tick_def STEPS_def page_ops Let_def
          active_neq_done)
  next
    case 4
    with assms(1) show ?thesis
      by (simp add: loading_at_def step_marks_def tick_def STEPS_def)
  qed
qed

lemma ticks_loading:
  assumes "loading_at i 0 p"
  shows "loading_at i (min k 3) (ticks k p)"
proof -
  have st: "stepTimer p = Some i" using assms by (simp add: loading_at_def)
  have "loading_at i (min k 3) ((tick i ^^ k) p)"
  proof (induction k)
    case 0
    show ?case using assms by simp
  next
    case (Suc k)
    have "loading_at i (min (Suc (min k 3)) 3) (tick i ((tick i ^^ k) p))"
      by (rule tick_loading [OF Suc.IH]) simp
    moreover have "min (Suc (min k 3)) 3 = min (Suc k) 3" by simp
    ultimately show ?case by simp
  qed
  then show ?thesis by (simp add: ticks_def st)
qed

lemma loading_at_frame:
  assumes "loading_at i j p"
  shows "loading_at i j (set_disabled b v p)"
    and "loading_at i j (set_text b t p)"
    and "loading_at i j (emit es p)"
  using assms by (simp_all add: loading_at_def step_marks_def page_ops)

lemma fired_loading:
  assumes "timers p = []" and "collectFormData p = Inr data" and "validate p data = None"
  shows "loading_at (next_timer p) 0 (fst (submit_fired p))"
    and "loading_at (next_timer p) 0 (fst (script_fired p))"
proof -
  have "loading_at (next_timer (hideMessages (emit [PreventDefault] p))) 0
          (showLoading (hideMessages (emit [PreventDefault] p)))"
    by (rule showLoading_loading) (simp add: hideMessages_frame emit_def assms(1))
  then have "loading_at (next_timer p) 0 (showLoading (hideMessages (emit [PreventDefault] p)))"
    by (simp add: hideMessages_frame emit_def)
  then show "loading_at (next_timer p) 0 (fst (submit_fired p))"
    unfolding submit_fired_sent [OF assms(2,3)] fst_conv
    by (intro loading_at_frame)
  have "loading_at (next_timer (hideMessages p)) 0 (showLoading (hideMessages p))"
    by (rule showLoading_loading) (simp add: hideMessages_frame assms(1))
  then have "loading_at (next_timer p) 0 (showLoading (hideMessages p))"
    by (simp add: hideMessages_frame)
  then show "loading_at (next_timer p) 0 (fst (script_fired p))"
    unfolding script_fired_sent [OF assms(2,3)] fst_conv
    by (intro loading_at_frame)
qed

lemma try_keeps_timer:
  "stepTimer (fst (submit_try eng fetched p)) = stepTimer p"
  "timers (fst (submit_try eng fetched p)) = timers p"
  "stepTimer (fst (script_try eng fetched p)) = stepTimer p"
  "timers (fst (script_try eng fetched p)) = timers p"
  by (simp_all add: submit_try_def script_try_def showResults_frame page_ops Let_def
        split: settled.splits sum.splits)

lemma step_marks_hideLoading: "step_marks (hideLoading p) = replicate 4 (False, False)"
  by (simp add: step_marks_def hideLoading_classes STEPS_def numeral_eq_Suc)

lemma settled_resets:
  "timers (submit_settled eng fetched p) = timers (clearInterval (stepTimer p) p)"
  "step_marks (submit_settled eng fetched p) = replicate 4 (False, False)"
  "timers (script_settled eng fetched p) = timers (clearInterval (stepTimer p) p)"
  "step_marks (script_settled eng fetched p) = replicate 4 (False, False)"
proof -
  obtain p1 th where t: "submit_try eng fetched p = (p1, th)" by (cases "submit_try eng fetched p")
  have k: "stepTimer p1 = stepTimer p" "timers p1 = timers p"
    using try_keeps_timer(1,2) [of eng fetched p] by (simp_all add: t)
  obtain p2 where s: "submit_settled eng fetched p =
      set_text ''btn-label'' (js ''Generate Tailored PDF'')
        (set_disabled ''script-btn'' False (set_disabled ''generate-btn'' False (hideLoading p2)))"
    and k2: "stepTimer p2 = stepTimer p" "timers p2 = timers p"
    using k by (cases th) (simp_all add: submit_settled_def t showError_frame)
  show "timers (submit_settled eng fetched p) = timers (clearInterval (stepTimer p) p)"
    unfolding s by (simp add: set_text_def set_disabled_def hideLoading_frame clearInterval_def k2
        split: option.splits)
  have "step_marks (submit_settled eng fetched p) = step_marks (hideLoading p2)"
    unfolding s by (simp add: step_marks_def set_text_def set_disabled_def)
  then show "step_marks (submit_settled eng fetched p) = replicate 4 (False, False)"
    by (simp add: step_marks_hideLoading)
  obtain q1 th' where t': "script_try eng fetched p = (q1, th')" by (cases "script_try eng fetched p")
  have k': "stepTimer q1 = stepTimer p" "timers q1 = timers p"
    using try_keeps_timer(3,4) [of eng fetched p] by (simp_all add: t')
  obtain q2 where s': "script_settled eng fetched p =
        set_disabled ''script-btn'' False (set_disabled ''generate-btn'' False (hideLoading q2))"
    and k2': "stepTimer q2 = stepTimer p" "timers q2 = timers p"
    using k' by (cases th') (simp_all add: script_settled_def t' showError_frame)
  show "timers (script_settled eng fetched p) = timers (clearInterval (stepTimer p) p)"
    unfolding s' by (simp add: set_disabled_def hideLoading_frame clearInterval_def k2'
        split: option.splits)
  have "step_marks (script_settled eng fetched p) = step_marks (hideLoading q2)"
    unfolding s' by (simp add: step_marks_def set_disabled_def)
  then show "step_marks (script_settled eng fetched p) = replicate 4 (False, False)"
    by (simp add: step_marks_hideLoading)
qed

lemma loading_cleared:
  assumes "loading_at i j p"
  shows "timers (clearInterval (stepTimer p) p) = []"
  using assms by (simp add: loading_at_def clearInterval_def)




subsection \<open>Properties of the specification\<close>

text \<open>
  C1. For a payload collected from the form, \<open>validate\<close> returns
  \<^verbatim>\<open>Please paste a job description.\<close> when the active tab is \<^verbatim>\<open>paste\<close> and the
  trimmed job description is empty (or its control is missing), returns
  \<^verbatim>\<open>Please enter a Job ID or Job URL.\<close> when the active tab is \<^verbatim>\<open>api\<close> and the
  trimmed job id is empty (or its control is missing), and returns \<^verbatim>\<open>null\<close> in every
  other case.
\<close>

theorem validate_collected:
  assumes "collectFormData p = Inr data"
  shows "validate p data =
     (if activeTab p = Some (js ''paste'') \<and> field_text p ''jd_raw'' \<in> {None, Some []}
      then Some (js ''Please paste a job description.'')
      else if activeTab p = Some (js ''api'') \<and> field_text p ''job_id'' \<in> {None, Some []}
      then Some (js ''Please enter a Job ID or Job URL.'')
      else None)"
proof -
  have raw: "activeTab p = Some (js ''paste'') \<Longrightarrow>
      jd_raw data = [] \<longleftrightarrow> field_text p ''jd_raw'' \<in> {None, Some []}"
    using collect_fields(5) [OF assms] by (simp add: or_str_empty_iff)
  have job: "activeTab p = Some (js ''api'') \<Longrightarrow>
      job_id data = [] \<longleftrightarrow> field_text p ''job_id'' \<in> {None, Some []}"
    using collect_fields(4) [OF assms] by (simp add: or_str_empty_iff)
  show ?thesis
    unfolding validate_def Let_def using raw job by (simp cong: conj_cong)
qed

theorem validate_collected_witness:
  "collectFormData (sample_page (Some (js ''paste'')) (js ''  '') (js ''J-1''))
     = Inr \<lparr>base_script = js ''story = []'', jd_api_endpoint = [], jd_api_key = [],
            job_id = [], jd_raw = [], candidate_name = js ''BHARATH KUMAR RAJESH'',
            target_role = js ''Engineer'', company_name = []\<rparr>
   \<and> validate (sample_page (Some (js ''paste'')) (js ''  '') (js ''J-1''))
        \<lparr>base_script = js ''story = []'', jd_api_endpoint = [], jd_api_key = [],
         job_id = [], jd_raw = [], candidate_name = js ''BHARATH KUMAR RAJESH'',
         target_role = js ''Engineer'', company_name = []\<rparr>
       = Some (js ''Please paste a job description.'')"
proof -
  let ?p = "sample_page (Some (js ''paste'')) (js ''  '') (js ''J-1'')"
  let ?d = "\<lparr>base_script = js ''story = []'', jd_api_endpoint = [], jd_api_key = [],
            job_id = [], jd_raw = [], candidate_name = js ''BHARATH KUMAR RAJESH'',
            target_role = js ''Engineer'', company_name = []\<rparr>"
  have c: "collectFormData ?p = Inr ?d"
    by (simp add: collect_sample trim_samples paste_neq_api)
  have v: "validate ?p ?d = Some (js ''Please paste a job description.'')"
    using validate_collected [OF c]
    by (simp add: activeTab_sample field_text_sample trim_samples)
  from c v show ?thesis by (rule conjI)
qed

text \<open>
  C2. When a request fails, by a thrown \<^verbatim>\<open>fetch\<close> or a status that is not ok, either
  handler leaves both buttons enabled, the loading overlay hidden, the error panel shown,
  and a non-empty message in it, from whatever page the continuation finds.
\<close>

theorem failed_request_recovers:
  assumes "failed fetched"
  shows "\<not> disabled (submit_settled eng fetched p) ''generate-btn''
       \<and> \<not> disabled (submit_settled eng fetched p) ''script-btn''
       \<and> js ''hidden'' \<in> set (classes (submit_settled eng fetched p) ''loading-overlay'')
       \<and> js ''hidden'' \<notin> set (classes (submit_settled eng fetched p) ''error-panel'')
       \<and> textContent (submit_settled eng fetched p) ''error-body'' \<noteq> []
       \<and> \<not> disabled (script_settled eng fetched p) ''generate-btn''
       \<and> \<not> disabled (script_settled eng fetched p) ''script-btn''
       \<and> js ''hidden'' \<in> set (classes (script_settled eng fetched p) ''loading-overlay'')
       \<and> js ''hidden'' \<notin> set (classes (script_settled eng fetched p) ''error-panel'')
       \<and> textContent (script_settled eng fetched p) ''error-body'' \<noteq> []"
proof -
  obtain e where e: "submit_try eng fetched p = (p, Some e)"
    using submit_try_failed [OF assms] by blast
  obtain e' where e': "script_try eng fetched p = (p, Some e')"
    using script_try_failed [OF assms] by blast
  let ?m = "or_str (Some (message eng e))
              (js ''An unexpected error occurred. Check the server logs.'')"
  let ?m' = "or_str (Some (message eng e'))
              (js ''Script generation failed. Check the server logs.'')"
  have m: "?m \<noteq> []" and m': "?m' \<noteq> []"
    by (simp_all add: or_str_nonempty)
  show ?thesis
    unfolding submit_settled_thrown [OF e] script_settled_thrown [OF e']
    using after_error_shown [OF m, of p] after_error_shown [OF m', of p] m m'
    by (simp add: set_text_def set_disabled_def)
qed

theorem failed_request_recovers_witness:
  "failed (Fulfilled (sample_response 500 no_headers (RejectedWith (js ''Unexpected token''))))
   \<and> \<not> disabled (submit_settled sample_engine
          (Fulfilled (sample_response 500 no_headers (RejectedWith (js ''Unexpected token''))))
          (fst (submit_fired (sample_page (Some (js ''paste'')) (js ''Build APIs'') [])))) ''generate-btn''
   \<and> textContent (submit_settled sample_engine
          (Fulfilled (sample_response 500 no_headers (RejectedWith (js ''Unexpected token''))))
          (fst (submit_fired (sample_page (Some (js ''paste'')) (js ''Build APIs'') [])))) ''error-body''
       \<noteq> []"
proof -
  have f: "failed (Fulfilled (sample_response 500 no_headers (RejectedWith (js ''Unexpected token''))))"
    by (simp add: failed_def ok_def sample_response_def)
  show ?thesis
    using f failed_request_recovers [OF f, of sample_engine
      "fst (submit_fired (sample_page (Some (js ''paste'')) (js ''Build APIs'') []))"]
    by simp
qed




text \<open>
  C4. In a collected payload every optional field whose input is empty after trimming, or
  missing, is the empty string (\<open>target_role\<close>, \<open>company_name\<close> and the four fields of
  the tabs), and \<open>candidate_name\<close> is then \<^verbatim>\<open>BHARATH KUMAR RAJESH\<close>.
\<close>

theorem collect_defaults:
  assumes "collectFormData p = Inr data"
  shows "(field_text p ''target_role'' \<in> {None, Some []} \<longrightarrow> target_role data = [])
       \<and> (field_text p ''company_name'' \<in> {None, Some []} \<longrightarrow> company_name data = [])
       \<and> (field_text p ''jd_api_endpoint'' \<in> {None, Some []} \<longrightarrow> jd_api_endpoint data = [])
       \<and> (field_text p ''jd_api_key'' \<in> {None, Some []} \<longrightarrow> jd_api_key data = [])
       \<and> (field_text p ''job_id'' \<in> {None, Some []} \<longrightarrow> job_id data = [])
       \<and> (field_text p ''jd_raw'' \<in> {None, Some []} \<longrightarrow> jd_raw data = [])
       \<and> (field_text p ''candidate_name'' \<in> {None, Some []}
            \<longrightarrow> candidate_name data = js ''BHARATH KUMAR RAJESH'')"
proof (intro conjI impI)
  assume "field_text p ''target_role'' \<in> {None, Some []}"
  then show "target_role data = []"
    by (simp only: collect_fields(7) [OF assms] or_str_blank)
next
  assume "field_text p ''company_name'' \<in> {None, Some []}"
  then show "company_name data = []"
    by (simp only: collect_fields(8) [OF assms] or_str_blank)
next
  assume "field_text p ''jd_api_endpoint'' \<in> {None, Some []}"
  then show "jd_api_endpoint data = []"
    by (simp only: collect_fields(2) [OF assms] or_str_blank if_cancel)
next
  assume "field_text p ''jd_api_key'' \<in> {None, Some []}"
  then show "jd_api_key data = []"
    by (simp only: collect_fields(3) [OF assms] or_str_blank if_cancel)
next
  assume "field_text p ''job_id'' \<in> {None, Some []}"
  then show "job_id data = []"
    by (simp only: collect_fields(4) [OF assms] or_str_blank if_cancel)
next
  assume "field_text p ''jd_raw'' \<in> {None, Some []}"
  then show "jd_raw data = []"
    by (simp only: collect_fields(5) [OF assms] or_str_blank if_cancel)
next
  assume "field_text p ''candidate_name'' \<in> {None, Some []}"
  then show "candidate_name data = js ''BHARATH KUMAR RAJESH''"
    by (simp only: collect_fields(6) [OF assms] or_str_blank)
qed

theorem collect_defaults_witness:
  "collectFormData (sample_page (Some (js ''api'')) (js '' Build APIs '') (js ''  ''))
     = Inr \<lparr>base_script = js ''story = []'', jd_api_endpoint = js ''https://jobs.example/api'',
            jd_api_key = [], job_id = [], jd_raw = [],
            candidate_name = js ''BHARATH KUMAR RAJESH'',
            target_role = js ''Engineer'', company_name = []\<rparr>
   \<and> field_text (sample_page (Some (js ''api'')) (js '' Build APIs '') (js ''  '')) ''company_name''
       = None
   \<and> field_text (sample_page (Some (js ''api'')) (js '' Build APIs '') (js ''  '')) ''job_id''
       = Some []
   \<and> field_text (sample_page (Some (js ''api'')) (js '' Build APIs '') (js ''  ''))
        ''candidate_name'' = Some []
   \<and> company_name \<lparr>base_script = js ''story = []'',
         jd_api_endpoint = js ''https://jobs.example/api'',
         jd_api_key = [], job_id = [], jd_raw = [],
         candidate_name = js ''BHARATH KUMAR RAJESH'',
         target_role = js ''Engineer'', company_name = []\<rparr> = []"
proof -
  let ?p = "sample_page (Some (js ''api'')) (js '' Build APIs '') (js ''  '')"
  have c: "collectFormData ?p =
      Inr \<lparr>base_script = js ''story = []'', jd_api_endpoint = js ''https://jobs.example/api'',
           jd_api_key = [], job_id = [], jd_raw = [],
           candidate_name = js ''BHARATH KUMAR RAJESH'',
           target_role = js ''Engineer'', company_name = []\<rparr>"
    by (simp add: collect_sample trim_samples paste_neq_api paste_neq_api [symmetric])
  show ?thesis
    using c collect_defaults [OF c]
    by (simp add: field_text_sample trim_samples)
qed

text \<open>
  C5. In a collected payload the fields of the inactive tab are empty whatever their inputs
  hold: on the \<^verbatim>\<open>paste\<close> tab \<open>jd_api_endpoint\<close>, \<open>jd_api_key\<close> and \<open>job_id\<close>, on the
  \<^verbatim>\<open>api\<close> tab \<open>jd_raw\<close>.
\<close>

theorem collect_inactive_tab_empty:
  assumes "collectFormData p = Inr data"
  shows "(activeTab p = Some (js ''paste'')
            \<longrightarrow> jd_api_endpoint data = [] \<and> jd_api_key data = [] \<and> job_id data = [])
       \<and> (activeTab p = Some (js ''api'') \<longrightarrow> jd_raw data = [])"
  by (simp add: collect_fields(2-5) [OF assms] paste_neq_api paste_neq_api [symmetric])

theorem collect_inactive_tab_empty_witness:
  "collectFormData (sample_page (Some (js ''paste'')) (js '' Build APIs '') (js ''J-1''))
     = Inr \<lparr>base_script = js ''story = []'', jd_api_endpoint = [], jd_api_key = [],
            job_id = [], jd_raw = js ''Build APIs'',
            candidate_name = js ''BHARATH KUMAR RAJESH'',
            target_role = js ''Engineer'', company_name = []\<rparr>
   \<and> activeTab (sample_page (Some (js ''paste'')) (js '' Build APIs '') (js ''J-1''))
       = Some (js ''paste'')
   \<and> field_text (sample_page (Some (js ''paste'')) (js '' Build APIs '') (js ''J-1'')) ''job_id''
       = Some (js ''J-1'')"
proof -
  let ?p = "sample_page (Some (js ''paste'')) (js '' Build APIs '') (js ''J-1'')"
  have c: "collectFormData ?p =
      Inr \<lparr>base_script = js ''story = []'', jd_api_endpoint = [], jd_api_key = [],
           job_id = [], jd_raw = js ''Build APIs'',
           candidate_name = js ''BHARATH KUMAR RAJESH'',
           target_role = js ''Engineer'', company_name = []\<rparr>"
    by (simp add: collect_sample trim_samples paste_neq_api)
  show ?thesis
    using c collect_inactive_tab_empty [OF c]
    by (simp add: activeTab_sample field_text_sample trim_samples)
qed




text \<open>
  C7. Once a request is sent from a page with no timer running, one interval timer of 4000
  milliseconds runs. After \<open>k\<close> firings the indicator stands at step \<open>min k 3\<close> of its
  four steps: each firing turns the active step into a done one and makes the next active,
  until the fourth is active, where further firings leave it. When the request settles,
  with a result or with an error, no timer runs and no step is marked.
\<close>

theorem loading_steps:
  assumes "timers p = []" and "collectFormData p = Inr data" and "validate p data = None"
  shows "timers (ticks k (fst (submit_fired p))) =
           [\<lparr>timer_id = next_timer p, delay = 4000, idx = min k 3\<rparr>]
       \<and> step_marks (ticks k (fst (submit_fired p))) =
           map (\<lambda>n. (n = min k 3, n < min k 3)) [0, 1, 2, 3]
       \<and> timers (submit_settled eng fetched (ticks k (fst (submit_fired p)))) = []
       \<and> step_marks (submit_settled eng fetched (ticks k (fst (submit_fired p)))) =
           replicate 4 (False, False)
       \<and> timers (ticks k (fst (script_fired p))) =
           [\<lparr>timer_id = next_timer p, delay = 4000, idx = min k 3\<rparr>]
       \<and> step_marks (ticks k (fst (script_fired p))) =
           map (\<lambda>n. (n = min k 3, n < min k 3)) [0, 1, 2, 3]
       \<and> timers (script_settled eng fetched (ticks k (fst (script_fired p)))) = []
       \<and> step_marks (script_settled eng fetched (ticks k (fst (script_fired p)))) =
           replicate 4 (False, False)"
proof -
  let ?q = "ticks k (fst (submit_fired p))"
  let ?r = "ticks k (fst (script_fired p))"
  have q: "loading_at (next_timer p) (min k 3) ?q"
    by (rule ticks_loading [OF fired_loading(1) [OF assms]])
  have r: "loading_at (next_timer p) (min k 3) ?r"
    by (rule ticks_loading [OF fired_loading(2) [OF assms]])
  have "timers (submit_settled eng fetched ?q) = []"
    by (simp only: settled_resets(1) loading_cleared [OF q])
  moreover have "timers (script_settled eng fetched ?r) = []"
    by (simp only: settled_resets(3) loading_cleared [OF r])
  ultimately show ?thesis
    using q r by (simp add: loading_at_def settled_resets(2,4))
qed

theorem loading_steps_witness:
  "timers (sample_page (Some (js ''paste'')) (js ''Build APIs'') []) = []
   \<and> collectFormData (sample_page (Some (js ''paste'')) (js ''Build APIs'') []) =
       Inr \<lparr>base_script = js ''story = []'', jd_api_endpoint = [], jd_api_key = [],
            job_id = [], jd_raw = js ''Build APIs'',
            candidate_name = js ''BHARATH KUMAR RAJESH'',
            target_role = js ''Engineer'', company_name = []\<rparr>
   \<and> timers (ticks 2 loading_page) = [\<lparr>timer_id = 1, delay = 4000, idx = 2\<rparr>]
   \<and> step_marks (ticks 2 loading_page) =
       [(False, True), (False, True), (True, False), (False, False)]
   \<and> step_marks (ticks 5 loading_page) =
       [(False, True), (False, True), (False, True), (True, False)]
   \<and> timers (submit_settled sample_engine (RejectedWith []) (ticks 2 loading_page)) = []
   \<and> step_marks (submit_settled sample_engine (RejectedWith []) (ticks 2 loading_page)) =
       [(False, False), (False, False), (False, False), (False, False)]"
proof -
  let ?p = "sample_page (Some (js ''paste'')) (js ''Build APIs'') []"
  let ?d = "\<lparr>base_script = js ''story = []'', jd_api_endpoint = [], jd_api_key = [],
            job_id = [], jd_raw = js ''Build APIs'', candidate_name = js ''BHARATH KUMAR RAJESH'',
            target_role = js ''Engineer'', company_name = []\<rparr>"
  have t: "trim (js ''Build APIs'') = js ''Build APIs''"
    by (simp add: trim_def is_white_space_def js_def)
  have i: "timers ?p = []" and n: "next_timer ?p = 1" by (simp_all add: sample_page_def)
  have c: "collectFormData ?p = Inr ?d"
    by (simp add: collect_sample t paste_neq_api)
  have v: "validate ?p ?d = None"
    by (simp add: validate_def activeTab_sample paste_neq_api js_def)
  show ?thesis
    using i c
      loading_steps [OF i c v, of 2 sample_engine "RejectedWith []"]
      loading_steps [OF i c v, of 5 sample_engine "RejectedWith []"]
    by (simp add: n loading_page_def numeral_eq_Suc)
qed

text \<open>
  C8. A payload that passes validation is sent once, as a JSON POST: by the submit handler
  to \<^verbatim>\<open>/tailor\<close>, by the script button to \<^verbatim>\<open>/script\<close>, with the same payload as
  body. The submit handler's continuation downloads the response's blob; the script
  handler's continuation puts the JSON's \<^verbatim>\<open>script\<close> into the output area and its
  \<^verbatim>\<open>changes_summary\<close> into the modal, which it opens.
\<close>

theorem one_endpoint_per_trigger:
  assumes "collectFormData p = Inr data" and "validate p data = None"
  shows "snd (submit_fired p) = Awaiting
       \<and> effects (fst (submit_fired p)) =
           effects p @
           [PreventDefault,
            Fetch \<lparr>url = js ''/tailor'', http_method = js ''POST'',
                   headers = [(js ''Content-Type'', js ''application/json'')], body = data\<rparr>]
       \<and> snd (script_fired p) = Awaiting
       \<and> effects (fst (script_fired p)) =
           effects p @
           [Fetch \<lparr>url = js ''/script'', http_method = js ''POST'',
                   headers = [(js ''Content-Type'', js ''application/json'')], body = data\<rparr>]
       \<and> (ok resp
            \<and> decodeURIComponent (or_str (header resp ''X-Changes-Summary'') []) = Inr changes
            \<and> blob_body resp = Fulfilled b
          \<longrightarrow> CreateObjectURL b (next_url q) \<in> set (effects (submit_settled eng (Fulfilled resp) q)))
       \<and> (ok resp \<and> json_body resp = Fulfilled (JObj kvs)
            \<and> map_of kvs (js ''script'') = Some (JStr s)
            \<and> map_of kvs (js ''changes_summary'') = Some (JStr c)
          \<longrightarrow> scriptOutput_value (script_settled eng (Fulfilled resp) q) = s
            \<and> textContent (script_settled eng (Fulfilled resp) q) ''changes-modal-summary'' = c
            \<and> js ''hidden'' \<notin> set (classes (script_settled eng (Fulfilled resp) q) ''script-modal''))"
proof (intro conjI impI)
  show "snd (submit_fired p) = Awaiting"
    by (simp add: submit_fired_sent [OF assms])
  show "snd (script_fired p) = Awaiting"
    by (simp add: script_fired_sent [OF assms])
  show "effects (fst (submit_fired p)) =
           effects p @
           [PreventDefault,
            Fetch \<lparr>url = js ''/tailor'', http_method = js ''POST'',
                   headers = [(js ''Content-Type'', js ''application/json'')], body = data\<rparr>]"
    using fired_effects(1) [OF assms] by (simp add: post_json_def)
  show "effects (fst (script_fired p)) =
           effects p @
           [Fetch \<lparr>url = js ''/script'', http_method = js ''POST'',
                   headers = [(js ''Content-Type'', js ''application/json'')], body = data\<rparr>]"
    using fired_effects(2) [OF assms] by (simp add: post_json_def)
next
  assume a: "ok resp
            \<and> decodeURIComponent (or_str (header resp ''X-Changes-Summary'') []) = Inr changes
            \<and> blob_body resp = Fulfilled b"
  then have t: "submit_try eng (Fulfilled resp) q =
     (showResults changes (parseInt10 eng (or_str (header resp ''X-Pages'') (js ''1'')))
        (emit [CreateObjectURL b (next_url q),
               AppendChild \<lparr>href = next_url q, download = js ''Bharath_Kumar_Tailored_Resume.pdf''\<rparr>,
               Click \<lparr>href = next_url q, download = js ''Bharath_Kumar_Tailored_Resume.pdf''\<rparr>,
               RemoveChild \<lparr>href = next_url q, download = js ''Bharath_Kumar_Tailored_Resume.pdf''\<rparr>,
               RevokeObjectURL (next_url q)]
           (q\<lparr>next_url := Suc (next_url q)\<rparr>)),
      None)"
    using submit_try_ok by blast
  show "CreateObjectURL b (next_url q) \<in> set (effects (submit_settled eng (Fulfilled resp) q))"
    unfolding submit_settled_done [OF t]
    by (simp add: set_text_def set_disabled_def hideLoading_frame showResults_frame emit_def)
next
  assume a: "ok resp \<and> json_body resp = Fulfilled (JObj kvs)
            \<and> map_of kvs (js ''script'') = Some (JStr s)
            \<and> map_of kvs (js ''changes_summary'') = Some (JStr c)"
  then have t: "script_try eng (Fulfilled resp) q =
     (class_remove ''script-modal'' [js ''hidden'']
        (set_text ''changes-modal-summary'' c (q\<lparr>scriptOutput_value := s\<rparr>)), None)"
    using script_try_ok by blast
  show "scriptOutput_value (script_settled eng (Fulfilled resp) q) = s"
    unfolding script_settled_done [OF t]
    by (simp add: set_disabled_def hideLoading_frame page_ops)
  show "textContent (script_settled eng (Fulfilled resp) q) ''changes-modal-summary'' = c"
    unfolding script_settled_done [OF t]
    by (simp add: set_disabled_def hideLoading_frame page_ops)
  show "js ''hidden'' \<notin> set (classes (script_settled eng (Fulfilled resp) q) ''script-modal'')"
    unfolding script_settled_done [OF t]
    by (simp add: set_disabled_def hideLoading_classes page_ops STEPS_def)
qed

theorem one_endpoint_per_trigger_witness:
  "collectFormData (sample_page (Some (js ''api'')) [] (js ''J-1'')) =
     Inr \<lparr>base_script = js ''story = []'', jd_api_endpoint = js ''https://jobs.example/api'',
          jd_api_key = [], job_id = js ''J-1'', jd_raw = [],
          candidate_name = js ''BHARATH KUMAR RAJESH'',
          target_role = js ''Engineer'', company_name = []\<rparr>
   \<and> validate (sample_page (Some (js ''api'')) [] (js ''J-1''))
       \<lparr>base_script = js ''story = []'', jd_api_endpoint = js ''https://jobs.example/api'',
        jd_api_key = [], job_id = js ''J-1'', jd_raw = [],
        candidate_name = js ''BHARATH KUMAR RAJESH'',
        target_role = js ''Engineer'', company_name = []\<rparr> = None
   \<and> effects (fst (script_fired (sample_page (Some (js ''api'')) [] (js ''J-1'')))) =
       [Fetch \<lparr>url = js ''/script'', http_method = js ''POST'',
               headers = [(js ''Content-Type'', js ''application/json'')],
               body = \<lparr>base_script = js ''story = []'',
                        jd_api_endpoint = js ''https://jobs.example/api'',
                        jd_api_key = [], job_id = js ''J-1'', jd_raw = [],
                        candidate_name = js ''BHARATH KUMAR RAJESH'',
                        target_role = js ''Engineer'', company_name = []\<rparr>\<rparr>]"
proof -
  let ?p = "sample_page (Some (js ''api'')) [] (js ''J-1'')"
  let ?d = "\<lparr>base_script = js ''story = []'', jd_api_endpoint = js ''https://jobs.example/api'',
            jd_api_key = [], job_id = js ''J-1'', jd_raw = [],
            candidate_name = js ''BHARATH KUMAR RAJESH'',
            target_role = js ''Engineer'', company_name = []\<rparr>"
  have c: "collectFormData ?p = Inr ?d"
    by (simp add: collect_sample trim_samples paste_neq_api [symmetric])
  have v: "validate ?p ?d = None"
    by (simp add: validate_def activeTab_sample paste_neq_api [symmetric] js_def)
  have e: "effects ?p = []" by (simp add: sample_page_def)
  show ?thesis
    using c v e one_endpoint_per_trigger [OF c v]
    by simp
qed

text \<open>
  C9. On an ok response whose file body arrives: without an \<^verbatim>\<open>X-Pages\<close> header the badge
  shows one page, and without an \<^verbatim>\<open>X-Changes-Summary\<close> header the results panel is shown
  with \<^verbatim>\<open>Resume tailored successfully using Claude AI.\<close>
\<close>

theorem absent_headers_default:
  assumes "ok resp" and "blob_body resp = Fulfilled b"
  shows "(header resp ''X-Pages'' = None
          \<and> decodeURIComponent (or_str (header resp ''X-Changes-Summary'') []) = Inr changes
          \<longrightarrow> textContent (submit_settled eng (Fulfilled resp) p) ''page-badge'' =
                [0xD83D, 0xDCC4, 0x20] @ js ''1 Page'' @ [0x20, 0xB7, 0x20] @ js ''ATS Ready'')
       \<and> (header resp ''X-Changes-Summary'' = None
          \<longrightarrow> textContent (submit_settled eng (Fulfilled resp) p) ''changes-summary'' =
                js ''Resume tailored successfully using Claude AI.''
            \<and> js ''hidden'' \<notin> set (classes (submit_settled eng (Fulfilled resp) p) ''results-panel''))"
proof (intro conjI impI)
  assume a: "header resp ''X-Pages'' = None
     \<and> decodeURIComponent (or_str (header resp ''X-Changes-Summary'') []) = Inr changes"
  then have d: "decodeURIComponent (or_str (header resp ''X-Changes-Summary'') []) = Inr changes"
    by simp
  have pg: "parseInt10 eng (or_str (header resp ''X-Pages'') (js ''1'')) = NumInt 1"
    using a by (simp add: or_str_def parseInt10_one)
  show "textContent (submit_settled eng (Fulfilled resp) p) ''page-badge'' =
          [0xD83D, 0xDCC4, 0x20] @ js ''1 Page'' @ [0x20, 0xB7, 0x20] @ js ''ATS Ready''"
    unfolding submit_settled_done [OF submit_try_ok [OF assms(1) d assms(2)]] pg
    by (simp add: set_text_def set_disabled_def hideLoading_frame showResults_frame
          int_text_one js_def)
next
  assume a: "header resp ''X-Changes-Summary'' = None"
  then have d: "decodeURIComponent (or_str (header resp ''X-Changes-Summary'') []) = Inr []"
    by (simp add: or_str_def)
  show "textContent (submit_settled eng (Fulfilled resp) p) ''changes-summary'' =
          js ''Resume tailored successfully using Claude AI.''"
    unfolding submit_settled_done [OF submit_try_ok [OF assms(1) d assms(2)]]
    by (simp add: set_text_def set_disabled_def hideLoading_frame showResults_frame or_str_def)
  show "js ''hidden'' \<notin> set (classes (submit_settled eng (Fulfilled resp) p) ''results-panel'')"
    unfolding submit_settled_done [OF submit_try_ok [OF assms(1) d assms(2)]]
    by (simp add: set_text_def set_disabled_def hideLoading_classes showResults_frame STEPS_def
          emit_def)
qed

theorem absent_headers_default_witness:
  "ok (sample_response 200 no_headers (RejectedWith []))
   \<and> blob_body (sample_response 200 no_headers (RejectedWith [])) = Fulfilled [0x25, 0x50, 0x44, 0x46]
   \<and> textContent
        (submit_settled sample_engine (Fulfilled (sample_response 200 no_headers (RejectedWith [])))
           loading_page) ''page-badge''
       = [0xD83D, 0xDCC4, 0x20] @ js ''1 Page'' @ [0x20, 0xB7, 0x20] @ js ''ATS Ready''
   \<and> textContent
        (submit_settled sample_engine (Fulfilled (sample_response 200 no_headers (RejectedWith [])))
           loading_page) ''changes-summary''
       = js ''Resume tailored successfully using Claude AI.''"
proof -
  let ?r = "sample_response 200 no_headers (RejectedWith [])"
  have o: "ok ?r" and b: "blob_body ?r = Fulfilled [0x25, 0x50, 0x44, 0x46]"
    by (simp_all add: sample_response_fields)
  have h: "header ?r ''X-Pages'' = None" "header ?r ''X-Changes-Summary'' = None"
    by (simp_all add: sample_response_fields no_headers_def)
  have d: "decodeURIComponent (or_str (header ?r ''X-Changes-Summary'') []) = Inr []"
    by (simp add: h or_str_def)
  show ?thesis
    using o b h d absent_headers_default [OF o b, of "[]" sample_engine loading_page]
    by simp
qed

text \<open>
  C10. When no element matches \<^verbatim>\<open>.tab.active\<close> (or the one that does has no
  \<^verbatim>\<open>data-tab\<close>), \<open>validate\<close> returns \<^verbatim>\<open>null\<close> for every payload, and both handlers
  go on to send the collected payload.
\<close>

theorem no_active_tab_skips_validation:
  assumes "activeTab p = None"
  shows "validate p data = None
       \<and> (collectFormData p = Inr d \<longrightarrow>
            snd (submit_fired p) = Awaiting
          \<and> effects (fst (submit_fired p)) =
              effects p @ [PreventDefault, Fetch (post_json (js ''/tailor'') d)]
          \<and> snd (script_fired p) = Awaiting
          \<and> effects (fst (script_fired p)) = effects p @ [Fetch (post_json (js ''/script'') d)])"
proof (intro conjI impI)
  show "validate p data = None" by (rule validate_no_tab [OF assms])
next
  assume c: "collectFormData p = Inr d"
  have v: "validate p d = None" by (rule validate_no_tab [OF assms])
  show "snd (submit_fired p) = Awaiting" by (simp add: submit_fired_sent [OF c v])
  show "snd (script_fired p) = Awaiting" by (simp add: script_fired_sent [OF c v])
  show "effects (fst (submit_fired p)) =
          effects p @ [PreventDefault, Fetch (post_json (js ''/tailor'') d)]"
    by (rule fired_effects(1) [OF c v])
  show "effects (fst (script_fired p)) = effects p @ [Fetch (post_json (js ''/script'') d)]"
    by (rule fired_effects(2) [OF c v])
qed

theorem no_active_tab_skips_validation_witness:
  "activeTab (sample_page None (js ''  '') []) = None
   \<and> collectFormData (sample_page None (js ''  '') []) =
       Inr \<lparr>base_script = js ''story = []'', jd_api_endpoint = [], jd_api_key = [],
            job_id = [], jd_raw = [], candidate_name = js ''BHARATH KUMAR RAJESH'',
            target_role = js ''Engineer'', company_name = []\<rparr>
   \<and> validate (sample_page None (js ''  '') [])
        \<lparr>base_script = js ''story = []'', jd_api_endpoint = [], jd_api_key = [],
         job_id = [], jd_raw = [], candidate_name = js ''BHARATH KUMAR RAJESH'',
         target_role = js ''Engineer'', company_name = []\<rparr> = None
   \<and> effects (fst (submit_fired (sample_page None (js ''  '') []))) =
       [PreventDefault,
        Fetch \<lparr>url = js ''/tailor'', http_method = js ''POST'',
               headers = [(js ''Content-Type'', js ''application/json'')],
               body = \<lparr>base_script = js ''story = []'', jd_api_endpoint = [], jd_api_key = [],
                        job_id = [], jd_raw = [], candidate_name = js ''BHARATH KUMAR RAJESH'',
                        target_role = js ''Engineer'', company_name = []\<rparr>\<rparr>]"
proof -
  let ?p = "sample_page None (js ''  '') []"
  let ?d = "\<lparr>base_script = js ''story = []'', jd_api_endpoint = [], jd_api_key = [],
            job_id = [], jd_raw = [], candidate_name = js ''BHARATH KUMAR RAJESH'',
            target_role = js ''Engineer'', company_name = []\<rparr>"
  have a: "activeTab ?p = None" by (simp add: activeTab_sample)
  have c: "collectFormData ?p = Inr ?d" by (simp add: collect_sample)
  have e: "effects ?p = []" by (simp add: sample_page_def)
  show ?thesis
    using a c e no_active_tab_skips_validation [OF a, of ?d ?d]
    by (simp add: post_json_def)
qed


end
